theory Spec2Isabelle
  imports Main "HOL-Library.Sublist"
begin

section \<open>Strings as the result view uses them\<close>

text \<open>
  The views work on JavaScript strings. They are modelled as \<open>string\<close> (lists of
  \<open>char\<close>), one \<open>char\<close> per code unit, for code units below 256 (ASCII and Latin-1),
  which is where ingredient names written in ASCII live. On that range
  \<open>String.prototype.toLowerCase\<close> works code unit by code unit: it adds 32 to
  \<open>A\<close>..\<open>Z\<close> (65..90) and to the Latin-1 capitals 192..222 other than the
  multiplication sign 215, and leaves every other code unit as it is.
\<close>

definition isUpperChar :: "char \<Rightarrow> bool" where
  "isUpperChar c =
     (let n = (of_char c :: nat)
      in (65 \<le> n \<and> n \<le> 90) \<or> (192 \<le> n \<and> n \<le> 222 \<and> n \<noteq> 215))"

definition toLowerChar :: "char \<Rightarrow> char" where
  "toLowerChar c = (if isUpperChar c then char_of ((of_char c :: nat) + 32) else c)"

definition toLowerCase :: "string \<Rightarrow> string" where
  "toLowerCase s = map toLowerChar s"

text \<open>
  \<open>String.prototype.trim\<close> removes white space and line terminators from both ends.
  Below 256 these are tab, line feed, vertical tab, form feed, carriage return, space
  and the no-break space 160; the regular expression class \<open>\s\<close> is the same set.
\<close>

definition isWhiteSpace :: "char \<Rightarrow> bool" where
  "isWhiteSpace c = ((of_char c :: nat) \<in> {9, 10, 11, 12, 13, 32, 160})"

definition trim :: "string \<Rightarrow> string" where
  "trim s = rev (dropWhile isWhiteSpace (rev (dropWhile isWhiteSpace s)))"

text \<open>
  \<open>s.includes(sub)\<close>: \<open>sub\<close> occurs in \<open>s\<close> as a contiguous run; the empty string
  occurs in every string.
\<close>

fun str_includes :: "string \<Rightarrow> string \<Rightarrow> bool" where
  "str_includes [] sub = (sub = [])"
| "str_includes (c # cs) sub = (prefix sub (c # cs) \<or> str_includes cs sub)"

text \<open>
  \<open>s.split(' ')\<close>: the pieces between single separator characters, empty pieces
  included; the empty string splits into one empty piece.
\<close>

fun split_char :: "char \<Rightarrow> string \<Rightarrow> string list" where
  "split_char sep [] = [[]]"
| "split_char sep (c # cs) =
     (if c = sep then [] # split_char sep cs
      else (case split_char sep cs of
              [] \<Rightarrow> [[c]]
            | w # ws \<Rightarrow> (c # w) # ws))"

text \<open>
  \<open>s.split(/[\s,;.]+/)\<close>: the pieces between maximal runs of separator characters
  (white space, comma, semicolon, full stop). A run at either end leaves an empty piece
  there, which the \<open>filter(Boolean)\<close> that follows removes.
\<close>

definition isWordSep :: "char \<Rightarrow> bool" where
  "isWordSep c = (isWhiteSpace c \<or> c = CHR '','' \<or> c = CHR '';'' \<or> c = CHR ''.'')"

function split_runs :: "(char \<Rightarrow> bool) \<Rightarrow> string \<Rightarrow> string list" where
  "split_runs sep [] = [[]]"
| "split_runs sep (c # cs) =
     (if sep c then [] # split_runs sep (dropWhile sep cs)
      else (case split_runs sep cs of
              [] \<Rightarrow> [[c]]
            | w # ws \<Rightarrow> (c # w) # ws))"
  by pat_completeness auto
termination
  by (relation "measure (\<lambda>(sep, s). length s)")
     (auto simp: length_dropWhile_le le_imp_less_Suc)

definition split_words :: "string \<Rightarrow> string list" where
  "split_words s = filter (\<lambda>w. w \<noteq> []) (split_runs isWordSep s)"


section \<open>Analysis records and ingredients\<close>

datatype safety_level = Safe | Caution | Avoid | Unknown

text \<open>
  \<open>IngredientAnalysisResult\<close> of the API service. The \<open>nutrition\<close> table is not read
  by the result view and is left out; \<open>health_score\<close> is \<open>number | null\<close>; the field
  \<open>id\<close> is written \<open>id_no\<close>.
\<close>

record IngredientAnalysisResult =
  name :: string
  id_no :: int
  safety_level :: safety_level
  health_score :: "int option"
  concerns :: "string list"
  benefits :: "string list"

text \<open>\<open>IngredientType = string | Ingredient\<close>: a plain string or an object with a name.\<close>

datatype IngredientType = Text string | Obj string "bool option"

fun ingredientText :: "IngredientType \<Rightarrow> string" where
  "ingredientText (Text s) = s"
| "ingredientText (Obj n allergen) = n"


section \<open>The ingredient matchers\<close>

text \<open>
  The predicate handed to \<open>analysisResults.find\<close> in the product ingredient list.
  \<open>!a?.name\<close> rejects a record whose name is empty. Names are lowercased, not trimmed.
\<close>

definition productExact :: "IngredientAnalysisResult \<Rightarrow> string \<Rightarrow> bool" where
  "productExact a t = (toLowerCase (name a) = toLowerCase t)"

definition productSubstring :: "IngredientAnalysisResult \<Rightarrow> string \<Rightarrow> bool" where
  "productSubstring a t =
     (str_includes (toLowerCase t) (toLowerCase (name a)) \<or>
      str_includes (toLowerCase (name a)) (toLowerCase t))"

definition productWords :: "IngredientAnalysisResult \<Rightarrow> string \<Rightarrow> bool" where
  "productWords a t =
     list_ex (\<lambda>word. str_includes (toLowerCase t) word)
       (split_char CHR '' '' (toLowerCase (name a)))"

definition productMatches :: "string \<Rightarrow> IngredientAnalysisResult \<Rightarrow> bool" where
  "productMatches t a =
     (if name a = [] then False
      else productExact a t \<or> productSubstring a t \<or> productWords a t)"

text \<open>
  The predicate handed to \<open>analysisResults.find\<close> in the OCR ingredient list. Both
  names are lowercased and trimmed; an empty name on either side never matches; then the
  exact test, the two containment tests and the word-by-word test follow in that order.
\<close>

definition analysisName :: "IngredientAnalysisResult \<Rightarrow> string" where
  "analysisName a = trim (toLowerCase (name a))"

definition ingredientLower :: "string \<Rightarrow> string" where
  "ingredientLower t = trim (toLowerCase t)"

definition ocrExact :: "IngredientAnalysisResult \<Rightarrow> string \<Rightarrow> bool" where
  "ocrExact a t = (analysisName a = ingredientLower t)"

definition ocrSubstring :: "IngredientAnalysisResult \<Rightarrow> string \<Rightarrow> bool" where
  "ocrSubstring a t =
     (str_includes (ingredientLower t) (analysisName a) \<or>
      str_includes (analysisName a) (ingredientLower t))"

definition ocrWords :: "IngredientAnalysisResult \<Rightarrow> string \<Rightarrow> bool" where
  "ocrWords a t =
     list_ex (\<lambda>aw. list_ex (\<lambda>iw. str_includes iw aw \<or> str_includes aw iw)
                     (split_words (ingredientLower t)))
       (split_words (analysisName a))"

definition ocrMatches :: "string \<Rightarrow> IngredientAnalysisResult \<Rightarrow> bool" where
  "ocrMatches t a =
     (if name a = [] then False
      else if analysisName a = [] \<or> ingredientLower t = [] then False
      else if ocrExact a t then True
      else if ocrSubstring a t then True
      else ocrWords a t)"

text \<open>
  One row of an ingredient list: the text shown and the analysis record found for it
  (\<open>undefined\<close> is \<open>None\<close>). \<open>analysisResults\<close> is \<open>null\<close> (\<open>None\<close>) until an analysis
  has been fetched; the records are searched in the order of the array, and
  \<open>Array.prototype.find\<close> returns the first one the predicate accepts.
\<close>

record MatchResult =
  ingredient :: string
  analysis :: "IngredientAnalysisResult option"

definition productRow ::
  "IngredientAnalysisResult list option \<Rightarrow> IngredientType \<Rightarrow> MatchResult" where
  "productRow analysisResults i =
     \<lparr>ingredient = ingredientText i,
      analysis = (case analysisResults of
                    None \<Rightarrow> None
                  | Some rs \<Rightarrow> find (productMatches (ingredientText i)) rs)\<rparr>"

definition productRows ::
  "IngredientAnalysisResult list option \<Rightarrow> IngredientType list \<Rightarrow> MatchResult list" where
  "productRows analysisResults ingredients = map (productRow analysisResults) ingredients"

definition ocrRow ::
  "IngredientAnalysisResult list option \<Rightarrow> IngredientType \<Rightarrow> MatchResult" where
  "ocrRow analysisResults i =
     \<lparr>ingredient = ingredientText i,
      analysis = (case analysisResults of
                    None \<Rightarrow> None
                  | Some rs \<Rightarrow> find (ocrMatches (ingredientText i)) rs)\<rparr>"

definition ocrRows ::
  "IngredientAnalysisResult list option \<Rightarrow> IngredientType list \<Rightarrow> MatchResult list" where
  "ocrRows analysisResults ingredients = map (ocrRow analysisResults) ingredients"

text \<open>
  \<open>first_accepted P rs j\<close>: position \<open>j\<close> holds the first record of \<open>rs\<close> that \<open>P\<close>
  accepts, which is the record \<open>rs.find(P)\<close> returns.
\<close>

definition first_accepted :: "('a \<Rightarrow> bool) \<Rightarrow> 'a list \<Rightarrow> nat \<Rightarrow> bool" where
  "first_accepted P rs j = (j < length rs \<and> P (rs ! j) \<and> (\<forall>m<j. \<not> P (rs ! m)))"

text \<open>Analysis records used in the examples.\<close>

definition sugar :: IngredientAnalysisResult where
  "sugar = \<lparr>name = ''Sugar'', id_no = 1, safety_level = Caution, health_score = None,
            concerns = [''High glycemic index''], benefits = []\<rparr>"

definition oil :: IngredientAnalysisResult where
  "oil = \<lparr>name = ''Oil'', id_no = 2, safety_level = Safe, health_score = None,
          concerns = [], benefits = []\<rparr>"

definition palm_oil :: IngredientAnalysisResult where
  "palm_oil = \<lparr>name = ''Palm Oil'', id_no = 3, safety_level = Avoid, health_score = None,
               concerns = [''Saturated fat''], benefits = []\<rparr>"

definition sodium_benzoate :: IngredientAnalysisResult where
  "sodium_benzoate = \<lparr>name = ''sodium benzoate'', id_no = 4, safety_level = Caution,
                      health_score = None, concerns = [], benefits = []\<rparr>"


text \<open>
  \<open>caseVariant c d\<close>: the code units \<open>c\<close> and \<open>d\<close> are the same, or one is a capital
  and the other the small letter 32 above it.
\<close>

definition caseVariant :: "char \<Rightarrow> char \<Rightarrow> bool" where
  "caseVariant c d =
     (c = d \<or>
      (isUpperChar c \<and> (of_char d :: nat) = of_char c + 32) \<or>
      (isUpperChar d \<and> (of_char c :: nat) = of_char d + 32))"


section \<open>The analysis summary\<close>






section \<open>The scan page\<close>

text \<open>
  The state of the scan view: its React state variables, the two element references
  the handlers read, and the devices behind them.
  \<^item> \<open>scannerRef\<close> tells whether \<open>scannerRef.current\<close> is an element; \<open>videoRef\<close> is
    \<open>None\<close> when \<open>videoRef.current\<close> is null and \<open>Some so\<close> for a video element whose
    \<open>srcObject\<close> is \<open>so\<close>.
  \<^item> A media stream is the list of its tracks; \<open>liveTracks\<close> are the tracks of the
    camera that have been handed out and not stopped.
  \<^item> \<open>quaggaInit\<close>, \<open>quaggaRunning\<close> and \<open>quaggaStops\<close> record the decoder: whether
    \<open>Quagga.init\<close> has been called, whether the decoder runs, and how many times
    \<open>Quagga.stop()\<close> has been called. \<open>onDetected\<close> lists the callbacks registered with
    \<open>Quagga.onDetected\<close>, oldest first; nothing in the view removes one. A callback is
    the \<open>handleBarcodeDetected\<close> of the render that registered it, and is represented
    by the value of \<open>barcode\<close> that render saw.
  \<^item> \<open>lookups\<close> lists the barcodes handed to \<open>ApiService.lookupBarcode\<close>, oldest first.

  A handler called from the page is applied to the state of the current render, and
  returns the state after the updates it asks for; handlers called one after the other
  belong to consecutive renders.

  The decoder is the quagga library, which the view imports. Its \<open>stop()\<close> reads the
  configuration that \<open>init\<close> stores, and raises a \<open>TypeError\<close> when \<open>init\<close> has never
  been called. A handler that raises stops there: the updates it asked for before are
  kept, the rest of its body is not run. \<open>Returned s\<close> is a handler that ran to its end
  and left the state \<open>s\<close>; \<open>Raised e s\<close> is one that raised \<open>e\<close> and left \<open>s\<close>.
\<close>

datatype ScanType = BARCODE | CAMERA | IMAGE

type_synonym MediaStream = "nat list"

record ScanPage =
  activeTab :: ScanType
  barcode :: string
  loading :: bool
  error :: "string option"
  cameraActive :: bool
  cameraError :: "string option"
  selectedFile :: "string option"
  previewUrl :: "string option"
  scannerRef :: bool
  videoRef :: "MediaStream option option"
  quaggaInit :: bool
  quaggaRunning :: bool
  quaggaStops :: nat
  onDetected :: "string list"
  liveTracks :: "nat list"
  lookups :: "string list"

datatype js_error = TypeError

datatype outcome = Returned ScanPage | Raised js_error ScanPage

fun page :: "outcome \<Rightarrow> ScanPage" where
  "page (Returned s) = s"
| "page (Raised e s) = s"

fun raised :: "outcome \<Rightarrow> js_error option" where
  "raised (Returned s) = None"
| "raised (Raised e s) = Some e"

text \<open>
  The elements behind the references exist while their tab panel is rendered:
  the scanner box on the camera tab, the video element on the upload tab. A video
  element that is mounted anew has no \<open>srcObject\<close>.
\<close>

definition rerender :: "ScanPage \<Rightarrow> ScanPage" where
  "rerender s =
     s\<lparr>scannerRef := (activeTab s = CAMERA),
       videoRef := (if activeTab s = IMAGE
                    then (case videoRef s of None \<Rightarrow> Some None | Some so \<Rightarrow> Some so)
                    else None)\<rparr>"

definition initialPage :: "string \<Rightarrow> ScanPage" where
  "initialPage initialMode =
     rerender
       \<lparr>activeTab = (if initialMode = ''camera'' then CAMERA
                     else if initialMode = ''upload'' then IMAGE
                     else BARCODE),
        barcode = [], loading = False, error = None,
        cameraActive = False, cameraError = None,
        selectedFile = None, previewUrl = None,
        scannerRef = False, videoRef = None,
        quaggaInit = False, quaggaRunning = False, quaggaStops = 0, onDetected = [],
        liveTracks = [], lookups = []\<rparr>"

text \<open>
  \<open>stopCamera\<close>. Its first argument is the value of \<open>cameraActive\<close> in the render that
  created the function; a handler of the current render passes \<open>cameraActive s\<close>. When
  \<open>Quagga.stop()\<close> raises, \<open>setCameraActive(false)\<close> is not reached.
\<close>

definition stopCamera :: "bool \<Rightarrow> ScanPage \<Rightarrow> outcome" where
  "stopCamera seenActive s =
     (if seenActive
      then (if quaggaInit s
            then Returned (s\<lparr>quaggaRunning := False, quaggaStops := Suc (quaggaStops s),
                             cameraActive := False\<rparr>)
            else Raised TypeError (s\<lparr>quaggaStops := Suc (quaggaStops s)\<rparr>))
      else Returned s)"

definition stopCameraForOCR :: "ScanPage \<Rightarrow> ScanPage" where
  "stopCameraForOCR s =
     (case videoRef s of
        None \<Rightarrow> s
      | Some None \<Rightarrow> s
      | Some (Some stream) \<Rightarrow>
          s\<lparr>liveTracks := filter (\<lambda>track. track \<notin> set stream) (liveTracks s),
            videoRef := Some None,
            cameraActive := False\<rparr>)"

definition handleTabChange :: "ScanType \<Rightarrow> ScanPage \<Rightarrow> outcome" where
  "handleTabChange newValue s =
     (let s1 = s\<lparr>activeTab := newValue, barcode := [], error := None\<rparr>
      in (case stopCamera (cameraActive s) s1 of
            Raised e s2 \<Rightarrow> Raised e s2
          | Returned s2 \<Rightarrow> Returned (s2\<lparr>selectedFile := None, previewUrl := None\<rparr>)))"

text \<open>
  The cleanup of the view's effect, whose dependency is \<open>previewUrl\<close>: it runs when
  \<open>previewUrl\<close> changes and when the view is unmounted, and calls both stop functions.
  Its \<open>stopCamera\<close> is the one of the render that set the effect up, so it reads the
  \<open>cameraActive\<close> of that render (\<open>seenActive\<close>); \<open>stopCameraForOCR\<close> reads
  \<open>videoRef.current\<close> as it is when the cleanup runs. The cleanup also revokes the
  preview URL, which is not part of this state. When the view is unmounted the elements
  are detached from their references before the cleanup runs.
\<close>

definition cleanup :: "bool \<Rightarrow> ScanPage \<Rightarrow> outcome" where
  "cleanup seenActive s =
     (case stopCamera seenActive s of
        Raised e s1 \<Rightarrow> Raised e s1
      | Returned s1 \<Rightarrow> Returned (stopCameraForOCR s1))"

definition unmount :: "bool \<Rightarrow> ScanPage \<Rightarrow> outcome" where
  "unmount seenActive s = cleanup seenActive (s\<lparr>scannerRef := False, videoRef := None\<rparr>)"

text \<open>
  \<open>startCameraForOCR\<close> takes what \<open>getUserMedia\<close> answers: \<open>Inl\<close> for a rejection,
  \<open>Inr stream\<close> for a stream, whose tracks are live from then on.
\<close>

definition startCameraForOCR :: "unit + MediaStream \<Rightarrow> ScanPage \<Rightarrow> ScanPage" where
  "startCameraForOCR answer s =
     (case videoRef s of
        None \<Rightarrow> s
      | Some so \<Rightarrow>
          (case answer of
             Inr stream \<Rightarrow>
               s\<lparr>liveTracks := liveTracks s @ stream,
                 videoRef := Some (Some stream),
                 cameraActive := True,
                 cameraError := None\<rparr>
           | Inl err \<Rightarrow>
               s\<lparr>cameraError := Some ''Could not access camera. Please check permissions.''\<rparr>))"

text \<open>
  \<open>handleBarcodeSearch\<close> up to its \<open>await\<close>. Its first argument is the value of
  \<open>barcode\<close> in the render that created the function: a handler reads the state of its
  own render, not what an earlier \<open>setBarcode\<close> of the same event has asked for.
\<close>

definition handleBarcodeSearch :: "string \<Rightarrow> ScanPage \<Rightarrow> ScanPage" where
  "handleBarcodeSearch seen s =
     (if trim seen = [] then s\<lparr>error := Some ''Please enter a barcode''\<rparr>
      else s\<lparr>loading := True, error := None, lookups := lookups s @ [trim seen]\<rparr>)"

text \<open>
  \<open>handleBarcodeDetected\<close>: \<open>result\<close> is \<open>Some code\<close> when the decoder's result carries
  a \<open>codeResult\<close>, and \<open>None\<close> otherwise. The decoder calls a callback only after
  \<open>Quagga.init\<close> has registered it, so the \<open>Quagga.stop()\<close> of a callback finds the
  decoder initialised and returns.
\<close>

definition handleBarcodeDetected :: "string \<Rightarrow> string option \<Rightarrow> ScanPage \<Rightarrow> ScanPage" where
  "handleBarcodeDetected seen result s =
     (case result of
        None \<Rightarrow> s
      | Some code \<Rightarrow>
          handleBarcodeSearch seen
            (s\<lparr>quaggaRunning := False, quaggaStops := Suc (quaggaStops s),
               cameraActive := False, barcode := code\<rparr>))"

text \<open>
  \<open>initBarcodeScanner\<close> with the answer of \<open>Quagga.init\<close> (\<open>initFailed\<close>): without a
  scanner box \<open>Quagga.init\<close> is not called; on success the decoder is started and the
  \<open>handleBarcodeDetected\<close> of this render is registered.
\<close>

definition initBarcodeScanner :: "bool \<Rightarrow> ScanPage \<Rightarrow> ScanPage" where
  "initBarcodeScanner initFailed s =
     (if \<not> scannerRef s then s
      else if initFailed
      then s\<lparr>quaggaInit := True,
             cameraError := Some ''Could not initialize camera. Please check permissions.''\<rparr>
      else s\<lparr>quaggaInit := True, quaggaRunning := True, cameraActive := True,
             cameraError := None, onDetected := onDetected s @ [barcode s]\<rparr>)"

definition startCamera :: "bool \<Rightarrow> ScanPage \<Rightarrow> ScanPage" where
  "startCamera initFailed s = initBarcodeScanner initFailed (s\<lparr>cameraError := None\<rparr>)"

text \<open>
  The decoder reports a result: every registered callback is called with it, oldest
  first. \<open>deliver\<close> reports a sequence of decoded codes, one after the other.
\<close>

definition detected :: "string option \<Rightarrow> ScanPage \<Rightarrow> ScanPage" where
  "detected result s = fold (\<lambda>seen. handleBarcodeDetected seen result) (onDetected s) s"

definition deliver :: "string list \<Rightarrow> ScanPage \<Rightarrow> ScanPage" where
  "deliver codes s = fold (\<lambda>code. detected (Some code)) codes s"


section \<open>The API service\<close>

text \<open>
  What the HTTP client answers. A request either resolves with a status and a body
  (\<open>response.data\<close>, \<open>None\<close> when it is null or undefined) or rejects with an error
  object, of which the service reads \<open>error.response?.data?.error\<close>. Of the body it reads
  the truth of \<open>success\<close>, and \<open>error\<close>, \<open>message\<close> and \<open>product\<close>.
\<close>

record ErrorBody =
  error_text :: "string option"

record ErrorResponse =
  error_data :: "ErrorBody option"

record Thrown =
  response :: "ErrorResponse option"

record Body =
  body_success :: bool
  body_error :: "string option"
  body_message :: "string option"
  body_product :: "string option"

datatype Transport = Resolved nat "Body option" | Rejected Thrown

record OCRResult =
  ingredients :: "string list"
  processing_time :: int
  image_path :: string

record AnalysisResponse =
  analysis_success :: bool
  analysis_ingredients :: "IngredientAnalysisResult list"
  analysis_processing_time :: int
  analysis_error :: "string option"

text \<open>
  The \<open>data\<close> of a response: the body as received, the \<open>product\<close> of a body, the
  empty object \<open>{}\<close>, or one of the two default records built in a \<open>catch\<close> branch.
\<close>

datatype Payload =
    Received Body
  | ProductOf "string option"
  | EmptyObject
  | OcrData OCRResult
  | AnalysisData AnalysisResponse

record 'a ApiResponse =
  data :: 'a
  success :: bool
  message :: "string option"

text \<open>\<open>x || d\<close> on strings: \<open>d\<close> when \<open>x\<close> is undefined or empty.\<close>

definition orElse :: "string option \<Rightarrow> string \<Rightarrow> string" where
  "orElse x d = (case x of None \<Rightarrow> d | Some m \<Rightarrow> if m = [] then d else m)"

definition errorText :: "Thrown \<Rightarrow> string option" where
  "errorText e =
     (case response e of
        None \<Rightarrow> None
      | Some r \<Rightarrow> (case error_data r of None \<Rightarrow> None | Some d \<Rightarrow> error_text d))"

text \<open>
  What reaches the \<open>catch\<close> branch of an operation that reads fields of
  \<open>response.data\<close>: the rejection of the request, or the \<open>TypeError\<close> (an error without
  \<open>response\<close>) raised in the \<open>try\<close> block when the body is null or undefined.
\<close>

fun attempt :: "Transport \<Rightarrow> Thrown + Body" where
  "attempt (Resolved status (Some b)) = Inr b"
| "attempt (Resolved status None) = Inl \<lparr>response = None\<rparr>"
| "attempt (Rejected e) = Inl e"

definition lookupBarcode :: "string \<Rightarrow> Transport \<Rightarrow> Payload ApiResponse" where
  "lookupBarcode barcode_arg t =
     (case attempt t of
        Inr b \<Rightarrow> \<lparr>data = Received b, success = body_success b, message = body_error b\<rparr>
      | Inl e \<Rightarrow> \<lparr>data = EmptyObject, success = False,
                   message = Some (orElse (errorText e) ''Failed to lookup barcode'')\<rparr>)"

definition processImage :: "string \<Rightarrow> Transport \<Rightarrow> Payload ApiResponse" where
  "processImage file t =
     (case attempt t of
        Inr b \<Rightarrow> \<lparr>data = Received b, success = body_success b, message = body_error b\<rparr>
      | Inl e \<Rightarrow> \<lparr>data = OcrData \<lparr>ingredients = [], processing_time = 0, image_path = []\<rparr>,
                   success = False,
                   message = Some (orElse (errorText e) ''Failed to process image'')\<rparr>)"

definition processCameraImage :: "string \<Rightarrow> Transport \<Rightarrow> Payload ApiResponse" where
  "processCameraImage blob t =
     (case attempt t of
        Inr b \<Rightarrow> \<lparr>data = Received b, success = body_success b, message = body_error b\<rparr>
      | Inl e \<Rightarrow> \<lparr>data = OcrData \<lparr>ingredients = [], processing_time = 0, image_path = []\<rparr>,
                   success = False,
                   message = Some (orElse (errorText e) ''Failed to process camera image'')\<rparr>)"

definition addManualProduct :: "string \<Rightarrow> Transport \<Rightarrow> Payload ApiResponse" where
  "addManualProduct product t =
     (case attempt t of
        Inr b \<Rightarrow> \<lparr>data = ProductOf (body_product b), success = body_success b,
                   message = (case body_message b of
                                None \<Rightarrow> body_error b
                              | Some m \<Rightarrow> if m = [] then body_error b else Some m)\<rparr>
      | Inl e \<Rightarrow> \<lparr>data = EmptyObject, success = False,
                   message = Some (orElse (errorText e) ''Failed to add product'')\<rparr>)"

definition healthCheck :: "Transport \<Rightarrow> bool" where
  "healthCheck t = (case t of Resolved status b \<Rightarrow> status = 200 | Rejected e \<Rightarrow> False)"

definition analyzeIngredients :: "string list \<Rightarrow> Transport \<Rightarrow> Payload ApiResponse" where
  "analyzeIngredients names t =
     (case attempt t of
        Inr b \<Rightarrow> \<lparr>data = Received b, success = body_success b, message = body_error b\<rparr>
      | Inl e \<Rightarrow>
          \<lparr>data = AnalysisData
                    \<lparr>analysis_success = False, analysis_ingredients = [],
                     analysis_processing_time = 0,
                     analysis_error =
                       Some (orElse (errorText e) ''Failed to analyze ingredients'')\<rparr>,
           success = False,
           message = Some (orElse (errorText e) ''Failed to analyze ingredients'')\<rparr>)"

text \<open>
  The service object: its six operations by name. Five answer with an
  \<open>ApiResponse\<close>, \<open>healthCheck\<close> with a boolean.
\<close>

datatype Operation =
    LookupBarcode string
  | ProcessImage string
  | ProcessCameraImage string
  | AddManualProduct string
  | HealthCheck
  | AnalyzeIngredients "string list"

datatype Answer = Reply "Payload ApiResponse" | Flag bool

fun ApiService :: "Operation \<Rightarrow> Transport \<Rightarrow> Answer" where
  "ApiService (LookupBarcode b) t = Reply (lookupBarcode b t)"
| "ApiService (ProcessImage f) t = Reply (processImage f t)"
| "ApiService (ProcessCameraImage b) t = Reply (processCameraImage b t)"
| "ApiService (AddManualProduct p) t = Reply (addManualProduct p t)"
| "ApiService HealthCheck t = Flag (healthCheck t)"
| "ApiService (AnalyzeIngredients ns) t = Reply (analyzeIngredients ns t)"

text \<open>
  \<open>failed r d\<close>: the response \<open>r\<close> reports a failure, with a message that is not
  empty and the data \<open>d\<close>.
\<close>

definition failed :: "Payload ApiResponse \<Rightarrow> Payload \<Rightarrow> bool" where
  "failed r d = (\<not> success r \<and> (\<exists>m. message r = Some m \<and> m \<noteq> []) \<and> data r = d)"



section \<open>One row per ingredient\<close>

text \<open>
  C7. Both ingredient lists render exactly one row per ingredient, in the order of the
  ingredients, each row carrying the text of its ingredient; this holds for every list of
  ingredients (duplicates included) and for every analysis result, absent, empty or not.
\<close>

theorem rows_one_per_ingredient:
  "length (ocrRows analysisResults items) = length items \<and>
   map ingredient (ocrRows analysisResults items) = map ingredientText items \<and>
   length (productRows analysisResults items) = length items \<and>
   map ingredient (productRows analysisResults items) = map ingredientText items"
  by (simp add: ocrRows_def ocrRow_def productRows_def productRow_def comp_def)

section \<open>Which record an ingredient is bound to\<close>

lemma find_first_at_or_before:
  assumes "k < length rs" and "P (rs ! k)"
  shows "\<exists>j\<le>k. find P rs = Some (rs ! j) \<and> first_accepted P rs j"
proof -
  from assms have "find P rs \<noteq> None"
    by (auto simp: find_None_iff intro: nth_mem)
  then obtain x where x: "find P rs = Some x"
    by blast
  then obtain j where j: "j < length rs" "P (rs ! j)" "x = rs ! j" "\<forall>m<j. \<not> P (rs ! m)"
    unfolding find_Some_iff by blast
  have "j \<le> k"
  proof (rule ccontr)
    assume "\<not> j \<le> k"
    then have "k < j" by simp
    with j(4) assms(2) show False by blast
  qed
  with x j show ?thesis
    unfolding first_accepted_def by blast
qed

lemma find_first_is_it:
  assumes "k < length rs" and "P (rs ! k)" and "\<forall>m<k. \<not> P (rs ! m)"
  shows "find P rs = Some (rs ! k)"
  using assms unfolding find_Some_iff by blast

lemma trim_Nil: "trim [] = []"
  by (simp add: trim_def)

lemma ocrExact_matches:
  assumes "ocrExact a t" and "ingredientLower t \<noteq> []"
  shows "ocrMatches t a"
proof -
  from assms have an: "analysisName a \<noteq> []"
    by (simp add: ocrExact_def)
  then have "name a \<noteq> []"
    by (auto simp: analysisName_def toLowerCase_def trim_Nil)
  with an assms show ?thesis
    by (simp add: ocrMatches_def)
qed

lemma ocrSubstring_matches:
  assumes "ocrSubstring a t" and "analysisName a \<noteq> []" and "ingredientLower t \<noteq> []"
  shows "ocrMatches t a"
proof -
  from assms(2) have "name a \<noteq> []"
    by (auto simp: analysisName_def toLowerCase_def trim_Nil)
  with assms show ?thesis
    by (simp add: ocrMatches_def)
qed

lemma productExact_matches:
  assumes "productExact a t" and "name a \<noteq> []"
  shows "productMatches t a"
  using assms by (simp add: productMatches_def)

text \<open>
  C1 as stated fails: the pool is never reduced, so two ingredients with the text
  \<open>Sugar\<close> are both bound to the one record \<open>Sugar\<close>, in either list.
\<close>

theorem rows_shared_record_counterexample:
  "ocrRows (Some [sugar]) [Text ''Sugar'', Text ''Sugar''] =
     [\<lparr>ingredient = ''Sugar'', analysis = Some sugar\<rparr>,
      \<lparr>ingredient = ''Sugar'', analysis = Some sugar\<rparr>] \<and>
   productRows (Some [sugar]) [Text ''Sugar'', Text ''Sugar''] =
     [\<lparr>ingredient = ''Sugar'', analysis = Some sugar\<rparr>,
      \<lparr>ingredient = ''Sugar'', analysis = Some sugar\<rparr>]"
  by code_simp

text \<open>
  C1, amended. In a pass each ingredient is bound to at most one record, and the row of an
  ingredient is computed from that ingredient and the whole pool alone: the row at
  position \<open>k\<close> is the row the ingredient at \<open>k\<close> gets on its own. Records are not consumed:
  two ingredients with the same text are bound to the same record (or both to none).
\<close>

theorem rows_bind_independently:
  assumes "j < length items" and "k < length items"
    and "ingredientText (items ! j) = ingredientText (items ! k)"
  shows "ocrRows ar items ! k = ocrRow ar (items ! k) \<and>
         productRows ar items ! k = productRow ar (items ! k) \<and>
         analysis (ocrRows ar items ! j) = analysis (ocrRows ar items ! k) \<and>
         analysis (productRows ar items ! j) = analysis (productRows ar items ! k)"
  using assms
  by (cases ar) (simp_all add: ocrRows_def productRows_def ocrRow_def productRow_def)

theorem rows_bind_independently_witness:
  "(0::nat) < length [Text ''Sugar'', Text ''Sugar''] \<and>
   (1::nat) < length [Text ''Sugar'', Text ''Sugar''] \<and>
   analysis (ocrRows (Some [sugar]) [Text ''Sugar'', Text ''Sugar''] ! 0) = Some sugar \<and>
   analysis (ocrRows (Some [sugar]) [Text ''Sugar'', Text ''Sugar''] ! 1) = Some sugar"
proof -
  let ?I = "[Text ''Sugar'', Text ''Sugar'']"
  have h0: "(0::nat) < length ?I" and h1: "(1::nat) < length ?I"
    by simp_all
  have h2: "ingredientText (?I ! 0) = ingredientText (?I ! 1)"
    by simp
  have first: "analysis (ocrRow (Some [sugar]) (Text ''Sugar'')) = Some sugar"
    by code_simp
  from rows_bind_independently [OF h1 h0, of "Some [sugar]"] h2 first
  have "analysis (ocrRows (Some [sugar]) ?I ! 0) = Some sugar"
    by simp
  moreover from rows_bind_independently [OF h0 h1 h2, of "Some [sugar]"] calculation
  have "analysis (ocrRows (Some [sugar]) ?I ! 1) = Some sugar"
    by simp
  ultimately show ?thesis
    using h0 h1 by blast
qed

text \<open>
  C2 as stated fails: with the pool \<open>Oil, Palm Oil\<close> the ingredient \<open>Palm Oil\<close> equals
  the second record exactly, yet it is bound to \<open>Oil\<close>, which comes first and is
  contained in it.
\<close>

theorem exact_passed_over_counterexample:
  "analysis (ocrRow (Some [oil, palm_oil]) (Text ''Palm Oil'')) = Some oil \<and>
   analysis (productRow (Some [oil, palm_oil]) (Text ''Palm Oil'')) = Some oil \<and>
   ocrExact palm_oil ''Palm Oil'' \<and> \<not> ocrExact oil ''Palm Oil'' \<and>
   productExact palm_oil ''Palm Oil'' \<and> \<not> productExact oil ''Palm Oil'' \<and>
   oil \<noteq> palm_oil"
  by code_simp

text \<open>
  C2, amended. If the normalized name of the ingredient is not empty and equals the
  normalized name of the record at position \<open>k\<close> of the pool, the ingredient is bound to
  a record: the first record of the pool that the predicate accepts under any of its
  tests, which sits at \<open>k\<close> or before it; it is the exactly equal record itself when the
  predicate accepts no record before \<open>k\<close>. The same holds in the product list, where the
  record's name must not be empty.
\<close>

theorem exact_match_binds_first_accepted:
  assumes "k < length rs" and "t = ingredientText i"
  shows "(ocrExact (rs ! k) t \<and> ingredientLower t \<noteq> [] \<longrightarrow>
            (\<exists>j\<le>k. analysis (ocrRow (Some rs) i) = Some (rs ! j) \<and>
                    first_accepted (ocrMatches t) rs j) \<and>
            ((\<forall>m<k. \<not> ocrMatches t (rs ! m)) \<longrightarrow>
               analysis (ocrRow (Some rs) i) = Some (rs ! k))) \<and>
         (productExact (rs ! k) t \<and> name (rs ! k) \<noteq> [] \<longrightarrow>
            (\<exists>j\<le>k. analysis (productRow (Some rs) i) = Some (rs ! j) \<and>
                    first_accepted (productMatches t) rs j) \<and>
            ((\<forall>m<k. \<not> productMatches t (rs ! m)) \<longrightarrow>
               analysis (productRow (Some rs) i) = Some (rs ! k)))"
proof (intro conjI impI)
  assume "ocrExact (rs ! k) t \<and> ingredientLower t \<noteq> []"
  then have m: "ocrMatches t (rs ! k)"
    by (simp add: ocrExact_matches)
  with find_first_at_or_before [of k rs "ocrMatches t"] assms
  show "\<exists>j\<le>k. analysis (ocrRow (Some rs) i) = Some (rs ! j) \<and>
               first_accepted (ocrMatches t) rs j"
    by (simp add: ocrRow_def)
  assume "\<forall>m<k. \<not> ocrMatches t (rs ! m)"
  with find_first_is_it [of k rs "ocrMatches t"] assms m
  show "analysis (ocrRow (Some rs) i) = Some (rs ! k)"
    by (simp add: ocrRow_def)
next
  assume "productExact (rs ! k) t \<and> name (rs ! k) \<noteq> []"
  then have m: "productMatches t (rs ! k)"
    by (simp add: productExact_matches)
  with find_first_at_or_before [of k rs "productMatches t"] assms
  show "\<exists>j\<le>k. analysis (productRow (Some rs) i) = Some (rs ! j) \<and>
               first_accepted (productMatches t) rs j"
    by (simp add: productRow_def)
  assume "\<forall>m<k. \<not> productMatches t (rs ! m)"
  with find_first_is_it [of k rs "productMatches t"] assms m
  show "analysis (productRow (Some rs) i) = Some (rs ! k)"
    by (simp add: productRow_def)
qed

theorem exact_match_binds_first_accepted_witness:
  "(0::nat) < length [palm_oil, oil] \<and>
   ocrExact ([palm_oil, oil] ! 0) ''Palm Oil'' \<and> ingredientLower ''Palm Oil'' \<noteq> [] \<and>
   productExact ([palm_oil, oil] ! 0) ''Palm Oil'' \<and> name ([palm_oil, oil] ! 0) \<noteq> [] \<and>
   analysis (ocrRow (Some [palm_oil, oil]) (Text ''Palm Oil'')) = Some palm_oil \<and>
   analysis (productRow (Some [palm_oil, oil]) (Text ''Palm Oil'')) = Some palm_oil"
proof -
  have h0: "(0::nat) < length [palm_oil, oil]"
    by simp
  have h1: "''Palm Oil'' = ingredientText (Text ''Palm Oil'')"
    by simp
  have h2: "ocrExact ([palm_oil, oil] ! 0) ''Palm Oil'' \<and> ingredientLower ''Palm Oil'' \<noteq> []"
    by code_simp
  have h3: "productExact ([palm_oil, oil] ! 0) ''Palm Oil'' \<and> name ([palm_oil, oil] ! 0) \<noteq> []"
    by code_simp
  from exact_match_binds_first_accepted [OF h0 h1] h2 h3 h0
  show ?thesis
    by simp
qed

text \<open>
  C5 as stated fails: for the ingredient \<open>Organic Palm Oil\<close> and the pool
  \<open>Oil, Palm Oil\<close> no record is exactly equal and both are contained in the ingredient;
  the shorter name \<open>Oil\<close>, first in the pool, is bound, not the longer \<open>Palm Oil\<close>.
\<close>

theorem shorter_earlier_preferred_counterexample:
  "analysis (ocrRow (Some [oil, palm_oil]) (Text ''Organic Palm Oil'')) = Some oil \<and>
   \<not> ocrExact oil ''Organic Palm Oil'' \<and> \<not> ocrExact palm_oil ''Organic Palm Oil'' \<and>
   ocrSubstring oil ''Organic Palm Oil'' \<and> ocrSubstring palm_oil ''Organic Palm Oil'' \<and>
   length (analysisName oil) < length (analysisName palm_oil)"
  by code_simp

text \<open>
  C5, amended. When a record at position \<open>k\<close> of the pool qualifies by substring
  containment (both normalized names not empty), the ingredient is bound to the first
  record in pool order that the predicate accepts under any of its tests: a record at
  \<open>k\<close> or before it, and the record at \<open>k\<close> itself when none before it is accepted. The
  length of a name plays no part.
\<close>

theorem substring_match_binds_first_accepted:
  assumes "k < length rs" and "t = ingredientText i"
    and "analysisName (rs ! k) \<noteq> []" and "ingredientLower t \<noteq> []"
    and "ocrSubstring (rs ! k) t"
  shows "(\<exists>j\<le>k. analysis (ocrRow (Some rs) i) = Some (rs ! j) \<and>
                 first_accepted (ocrMatches t) rs j) \<and>
         ((\<forall>m<k. \<not> ocrMatches t (rs ! m)) \<longrightarrow>
            analysis (ocrRow (Some rs) i) = Some (rs ! k))"
proof (intro conjI impI)
  from assms have m: "ocrMatches t (rs ! k)"
    by (simp add: ocrSubstring_matches)
  with find_first_at_or_before [of k rs "ocrMatches t"] assms(1,2)
  show "\<exists>j\<le>k. analysis (ocrRow (Some rs) i) = Some (rs ! j) \<and>
               first_accepted (ocrMatches t) rs j"
    by (simp add: ocrRow_def)
  assume "\<forall>m<k. \<not> ocrMatches t (rs ! m)"
  with find_first_is_it [of k rs "ocrMatches t"] assms(1,2) m
  show "analysis (ocrRow (Some rs) i) = Some (rs ! k)"
    by (simp add: ocrRow_def)
qed

theorem substring_match_binds_first_accepted_witness:
  "(0::nat) < length [palm_oil, sugar] \<and>
   analysisName ([palm_oil, sugar] ! 0) \<noteq> [] \<and> ingredientLower ''Organic Palm Oil'' \<noteq> [] \<and>
   ocrSubstring ([palm_oil, sugar] ! 0) ''Organic Palm Oil'' \<and>
   analysis (ocrRow (Some [palm_oil, sugar]) (Text ''Organic Palm Oil'')) = Some palm_oil"
proof -
  have h0: "(0::nat) < length [palm_oil, sugar]"
    by simp
  have h1: "''Organic Palm Oil'' = ingredientText (Text ''Organic Palm Oil'')"
    by simp
  have h2: "analysisName ([palm_oil, sugar] ! 0) \<noteq> []"
    by code_simp
  have h3: "ingredientLower ''Organic Palm Oil'' \<noteq> []"
    by code_simp
  have h4: "ocrSubstring ([palm_oil, sugar] ! 0) ''Organic Palm Oil''"
    by code_simp
  from substring_match_binds_first_accepted [OF h0 h1 h2 h3 h4] h0 h2 h3 h4
  show ?thesis
    by simp
qed


section \<open>Normalization of names\<close>

lemma upper_plus_32_not_upper:
  assumes "isUpperChar c" and "(of_char d :: nat) = of_char c + 32"
  shows "\<not> isUpperChar d"
  using assms by (auto simp: isUpperChar_def Let_def)

lemma upper_lower_is:
  assumes "isUpperChar c" and "(of_char d :: nat) = of_char c + 32"
  shows "toLowerChar c = d" and "toLowerChar d = d"
proof -
  from assms(2) have "char_of ((of_char c :: nat) + 32) = d"
    by (metis char_of_char)
  with assms(1) show "toLowerChar c = d"
    by (simp add: toLowerChar_def)
  from upper_plus_32_not_upper [OF assms] show "toLowerChar d = d"
    by (simp add: toLowerChar_def)
qed

lemma caseVariant_lower: "caseVariant c d \<Longrightarrow> toLowerChar c = toLowerChar d"
  unfolding caseVariant_def using upper_lower_is by metis

lemma caseVariant_toLowerCase:
  "list_all2 caseVariant s t \<Longrightarrow> toLowerCase s = toLowerCase t"
  unfolding toLowerCase_def
  by (induction rule: list_all2_induct) (simp_all add: caseVariant_lower)

lemma isWhiteSpace_not_upper: "isWhiteSpace c \<Longrightarrow> \<not> isUpperChar c"
  by (auto simp: isWhiteSpace_def isUpperChar_def Let_def)

lemma toLowerCase_whitespace:
  "list_all isWhiteSpace ws \<Longrightarrow> toLowerCase ws = ws"
  unfolding toLowerCase_def
  by (induction ws) (simp_all add: toLowerChar_def isWhiteSpace_not_upper)

lemma dropWhile_all: "list_all P xs \<Longrightarrow> dropWhile P (xs @ ys) = dropWhile P ys"
  by (induction xs) simp_all

lemma trim_surrounding:
  assumes "list_all isWhiteSpace ws1" and "list_all isWhiteSpace ws2"
  shows "trim (ws1 @ s @ ws2) = trim s"
proof -
  have "rev (dropWhile isWhiteSpace (rev (dropWhile isWhiteSpace (s @ ws2)))) =
        rev (dropWhile isWhiteSpace (rev (dropWhile isWhiteSpace s)))"
  proof (cases "list_all isWhiteSpace s")
    case True
    then have "dropWhile isWhiteSpace (s @ ws2) = []" "dropWhile isWhiteSpace s = []"
      using assms(2) by (auto simp: list_all_iff)
    then show ?thesis by (simp only: rev.simps dropWhile.simps)
  next
    case False
    then obtain x where "x \<in> set s" "\<not> isWhiteSpace x"
      by (auto simp: list_all_iff)
    then have "dropWhile isWhiteSpace (s @ ws2) = dropWhile isWhiteSpace s @ ws2"
      by (rule dropWhile_append1)
    moreover have "list_all isWhiteSpace (rev ws2)"
      using assms(2) by (simp add: list_all_iff)
    ultimately show ?thesis
      by (simp add: dropWhile_all)
  qed
  with assms(1) show ?thesis
    by (simp add: trim_def dropWhile_all)
qed

lemma ocr_normal_form:
  assumes "list_all isWhiteSpace ws1" and "list_all isWhiteSpace ws2"
  shows "trim (toLowerCase (ws1 @ s @ ws2)) = trim (toLowerCase s)"
proof -
  have "toLowerCase (ws1 @ s @ ws2) = ws1 @ toLowerCase s @ ws2"
    using assms toLowerCase_whitespace by (simp add: toLowerCase_def)
  with assms show ?thesis
    by (simp add: trim_surrounding)
qed

text \<open>
  C6 as stated fails: neither path strips punctuation. The ingredient
  \<open>(Sodium Benzoate)\<close> is not exactly equal to the record \<open>sodium benzoate\<close> in either
  path.
\<close>

theorem punctuation_not_stripped_counterexample:
  "\<not> ocrExact sodium_benzoate ''(Sodium Benzoate)'' \<and>
   \<not> productExact sodium_benzoate ''(Sodium Benzoate)''"
  by code_simp

text \<open>
  C6, amended. Before the tests are applied both paths lowercase both names, and the
  OCR path also trims them; neither strips punctuation. So two names that differ only
  in the case of their letters are exactly equal in both paths, and two names that differ
  only in case and in white space around them are exactly equal in the OCR path; such a
  pair is accepted by the predicate when the names are not empty.
\<close>

theorem names_normalised_by_case_and_space:
  assumes "list_all2 caseVariant s t"
    and "list_all isWhiteSpace ws1" and "list_all isWhiteSpace ws2"
    and "list_all isWhiteSpace ws3" and "list_all isWhiteSpace ws4"
  shows "productExact (a\<lparr>name := s\<rparr>) t \<and>
         ocrExact (a\<lparr>name := ws1 @ s @ ws2\<rparr>) (ws3 @ t @ ws4) \<and>
         (s \<noteq> [] \<longrightarrow> productMatches t (a\<lparr>name := s\<rparr>)) \<and>
         (ingredientLower t \<noteq> [] \<longrightarrow>
            ocrMatches (ws3 @ t @ ws4) (a\<lparr>name := ws1 @ s @ ws2\<rparr>))"
proof -
  from assms(1) have low: "toLowerCase s = toLowerCase t"
    by (rule caseVariant_toLowerCase)
  then have pe: "productExact (a\<lparr>name := s\<rparr>) t"
    by (simp add: productExact_def)
  have il: "ingredientLower (ws3 @ t @ ws4) = ingredientLower t"
    using assms(4,5) by (simp add: ingredientLower_def ocr_normal_form)
  have "analysisName (a\<lparr>name := ws1 @ s @ ws2\<rparr>) = trim (toLowerCase s)"
    using assms(2,3) by (simp add: analysisName_def ocr_normal_form)
  with low il have oe: "ocrExact (a\<lparr>name := ws1 @ s @ ws2\<rparr>) (ws3 @ t @ ws4)"
    by (simp add: ocrExact_def ingredientLower_def)
  from pe have "s \<noteq> [] \<longrightarrow> productMatches t (a\<lparr>name := s\<rparr>)"
    by (simp add: productExact_matches)
  moreover from oe il
  have "ingredientLower t \<noteq> [] \<longrightarrow>
          ocrMatches (ws3 @ t @ ws4) (a\<lparr>name := ws1 @ s @ ws2\<rparr>)"
    by (simp add: ocrExact_matches)
  ultimately show ?thesis
    using pe oe by blast
qed

theorem names_normalised_by_case_and_space_witness:
  "list_all2 caseVariant ''Sodium Benzoate'' ''sodium benzoate'' \<and>
   list_all isWhiteSpace '' '' \<and> list_all isWhiteSpace [] \<and>
   productExact (sugar\<lparr>name := ''Sodium Benzoate''\<rparr>) ''sodium benzoate'' \<and>
   ocrExact (sugar\<lparr>name := '' Sodium Benzoate''\<rparr>) ''sodium benzoate '' \<and>
   ocrMatches ''sodium benzoate '' (sugar\<lparr>name := '' Sodium Benzoate''\<rparr>)"
proof -
  have h1: "list_all2 caseVariant ''Sodium Benzoate'' ''sodium benzoate''"
    by code_simp
  have h2: "list_all isWhiteSpace '' ''" and h3: "list_all isWhiteSpace []"
    by code_simp+
  have h4: "ingredientLower ''sodium benzoate'' \<noteq> []"
    by code_simp
  from names_normalised_by_case_and_space [OF h1 h2 h3 h3 h2, of sugar] h1 h2 h3 h4
  show ?thesis
    by simp
qed


section \<open>The analysis summary counts records\<close>





section \<open>Releasing the cameras\<close>

text \<open>
  C3. The claim is that a tab change releases both cameras. \<open>handleTabChange\<close> calls
  \<open>stopCamera\<close> only. On the upload tab with the OCR camera started, a change to the
  barcode tab leaves the track of the stream live (before and after the next render,
  which drops the video element and with it the last reference to the stream). Its
  \<open>stopCamera\<close>, finding the shared flag up, calls \<open>Quagga.stop()\<close> on a decoder that
  was never initialised, which raises, so the handler ends there. The cleanup of the
  view's effect, run on the same state with the video element mounted, stops the track.
\<close>

theorem tab_change_leaves_ocr_stream_live:
  "liveTracks (startCameraForOCR (Inr [1]) (initialPage ''upload'')) = [1] \<and>
   liveTracks (page (handleTabChange BARCODE
      (startCameraForOCR (Inr [1]) (initialPage ''upload'')))) = [1] \<and>
   videoRef (page (handleTabChange BARCODE
      (startCameraForOCR (Inr [1]) (initialPage ''upload'')))) = Some (Some [1]) \<and>
   liveTracks (rerender (page (handleTabChange BARCODE
      (startCameraForOCR (Inr [1]) (initialPage ''upload''))))) = [1] \<and>
   videoRef (rerender (page (handleTabChange BARCODE
      (startCameraForOCR (Inr [1]) (initialPage ''upload''))))) = None \<and>
   quaggaStops (page (handleTabChange BARCODE
      (startCameraForOCR (Inr [1]) (initialPage ''upload'')))) = 1 \<and>
   raised (handleTabChange BARCODE
      (startCameraForOCR (Inr [1]) (initialPage ''upload''))) = Some TypeError \<and>
   liveTracks (page (cleanup False
      (startCameraForOCR (Inr [1]) (initialPage ''upload'')))) = []"
  by code_simp

lemma stopCameraForOCR_idempotent:
  "stopCameraForOCR (stopCameraForOCR s) = stopCameraForOCR s"
  by (auto simp: stopCameraForOCR_def split: option.splits)

lemma stopCamera_flag_down: "stopCamera False s = Returned s"
  by (simp add: stopCamera_def)

text \<open>
  C9. The claim is that a release without a handle changes nothing and raises nothing,
  for the scanner and for the OCR stream. \<open>stopCameraForOCR\<close> looks at its own handle,
  the \<open>srcObject\<close> of the video element, and does so. \<open>stopCamera\<close> looks at
  \<open>cameraActive\<close>, which the OCR camera raises too. On the upload tab with the OCR
  camera started the scanner has never been acquired: the decoder is not initialised,
  does not run and has no callback. There \<open>stopCamera\<close> calls \<open>Quagga.stop()\<close>, which
  raises, and the state is not the one before the call.
\<close>

theorem stop_camera_without_scanner_raises:
  "quaggaInit (startCameraForOCR (Inr [1]) (initialPage ''upload'')) = False \<and>
   quaggaRunning (startCameraForOCR (Inr [1]) (initialPage ''upload'')) = False \<and>
   onDetected (startCameraForOCR (Inr [1]) (initialPage ''upload'')) = [] \<and>
   cameraActive (startCameraForOCR (Inr [1]) (initialPage ''upload'')) = True \<and>
   raised (stopCamera (cameraActive (startCameraForOCR (Inr [1]) (initialPage ''upload'')))
      (startCameraForOCR (Inr [1]) (initialPage ''upload''))) = Some TypeError \<and>
   quaggaStops (startCameraForOCR (Inr [1]) (initialPage ''upload'')) = 0 \<and>
   quaggaStops (page (stopCamera True
      (startCameraForOCR (Inr [1]) (initialPage ''upload'')))) = 1 \<and>
   page (stopCamera True (startCameraForOCR (Inr [1]) (initialPage ''upload'')))
     \<noteq> startCameraForOCR (Inr [1]) (initialPage ''upload'')"
  by code_simp


section \<open>Decoded barcodes\<close>

lemma handleBarcodeDetected_fields:
  "quaggaStops (handleBarcodeDetected seen (Some code) s) = Suc (quaggaStops s)"
  "onDetected (handleBarcodeDetected seen (Some code) s) = onDetected s"
  "cameraActive (handleBarcodeDetected seen (Some code) s) = False"
  "barcode (handleBarcodeDetected seen (Some code) s) = code"
  by (simp_all add: handleBarcodeDetected_def handleBarcodeSearch_def)

lemma fold_handlers:
  "quaggaStops (fold (\<lambda>seen. handleBarcodeDetected seen (Some code)) hs s) =
     quaggaStops s + length hs \<and>
   onDetected (fold (\<lambda>seen. handleBarcodeDetected seen (Some code)) hs s) = onDetected s"
  by (induction hs arbitrary: s) (simp_all add: handleBarcodeDetected_fields)

lemma detected_fields:
  "quaggaStops (detected (Some code) s) = quaggaStops s + length (onDetected s)"
  "onDetected (detected (Some code) s) = onDetected s"
  by (simp_all add: detected_def fold_handlers)

lemma deliver_fields:
  "quaggaStops (deliver codes s) = quaggaStops s + length codes * length (onDetected s) \<and>
   onDetected (deliver codes s) = onDetected s"
  unfolding deliver_def
  by (induction codes arbitrary: s) (simp_all add: detected_fields algebra_simps)

text \<open>
  C4 as stated fails: no callback is suppressed. On the camera tab, with the scanner
  started, the code \<open>5000112637922\<close> delivered twice calls \<open>Quagga.stop()\<close> twice. And
  when the scanner is started a second time after that, a code delivered twice makes the
  callback of the second start submit two lookups.
\<close>

theorem duplicate_decodes_acted_upon_counterexample:
  "quaggaStops (deliver [''5000112637922'']
      (startCamera False (initialPage ''camera''))) = 1 \<and>
   quaggaStops (deliver [''5000112637922'', ''5000112637922'']
      (startCamera False (initialPage ''camera''))) = 2 \<and>
   lookups (deliver [''4006381333931'', ''4006381333931'']
      (startCamera False (rerender (deliver [''5000112637922'', ''5000112637922'']
         (startCamera False (initialPage ''camera'')))))) =
     [''5000112637922'', ''5000112637922'']"
  by code_simp

text \<open>
  C4, amended. Every decoded-code callback whose result carries a code is acted upon:
  it calls \<open>Quagga.stop()\<close>, lowers \<open>cameraActive\<close>, stores the code in \<open>barcode\<close> and
  runs the barcode search; a result without a code changes nothing. Nothing suppresses
  the callbacks after the first: delivering a sequence of codes calls \<open>Quagga.stop()\<close>
  once per code and registered callback.
\<close>

theorem every_decode_acted_upon:
  "handleBarcodeDetected seen None s = s \<and>
   quaggaStops (handleBarcodeDetected seen (Some code) s) = Suc (quaggaStops s) \<and>
   cameraActive (handleBarcodeDetected seen (Some code) s) = False \<and>
   barcode (handleBarcodeDetected seen (Some code) s) = code \<and>
   handleBarcodeDetected seen (Some code) s =
     handleBarcodeSearch seen
       (s\<lparr>quaggaRunning := False, quaggaStops := Suc (quaggaStops s),
          cameraActive := False, barcode := code\<rparr>) \<and>
   quaggaStops (deliver codes s) = quaggaStops s + length codes * length (onDetected s)"
  by (simp add: handleBarcodeDetected_fields deliver_fields)
     (simp add: handleBarcodeDetected_def)


section \<open>Failures of the API service\<close>

lemma orElse_not_empty: "d \<noteq> [] \<Longrightarrow> orElse x d \<noteq> []"
  by (simp add: orElse_def split: option.splits)

text \<open>
  C10 as stated fails for \<open>healthCheck\<close>: when its request fails it answers the bare
  boolean \<open>false\<close>, not a response with a message and data.
\<close>

theorem health_check_failure_counterexample:
  "ApiService HealthCheck (Rejected \<lparr>response = None\<rparr>) = Flag False"
  by (simp add: healthCheck_def)

text \<open>
  C10, amended. Whatever the arguments and whatever error the request throws, no
  operation of the service fails: \<open>lookupBarcode\<close>, \<open>processImage\<close>,
  \<open>processCameraImage\<close>, \<open>addManualProduct\<close> and \<open>analyzeIngredients\<close> return a response
  with \<open>success = false\<close>, a message that is not empty and their default data, and
  \<open>healthCheck\<close> returns \<open>false\<close>.
\<close>

theorem api_failures_are_answers:
  "failed (lookupBarcode b (Rejected e)) EmptyObject \<and>
   failed (processImage f (Rejected e))
     (OcrData \<lparr>ingredients = [], processing_time = 0, image_path = []\<rparr>) \<and>
   failed (processCameraImage c (Rejected e))
     (OcrData \<lparr>ingredients = [], processing_time = 0, image_path = []\<rparr>) \<and>
   failed (addManualProduct p (Rejected e)) EmptyObject \<and>
   failed (analyzeIngredients ns (Rejected e))
     (AnalysisData \<lparr>analysis_success = False, analysis_ingredients = [],
                    analysis_processing_time = 0,
                    analysis_error =
                      Some (orElse (errorText e) ''Failed to analyze ingredients'')\<rparr>) \<and>
   healthCheck (Rejected e) = False \<and>
   ApiService HealthCheck (Rejected e) = Flag False"
  by (simp add: failed_def lookupBarcode_def processImage_def processCameraImage_def
        addManualProduct_def analyzeIngredients_def healthCheck_def orElse_not_empty)

end
